theory Spec2Isabelle
  imports Main "HOL-Library.Sublist"
begin

section \<open>The reporting plugin: staged asynchronous bring-up\<close>

text \<open>
  The development embeds \<^verbatim>\<open>x-pack/plugins/reporting/server/plugin.ts\<close>: the class
  \<^verbatim>\<open>ReportingPlugin\<close> with its two lifecycle methods, the two background tasks they
  schedule, and the route handler context callback.

  JavaScript runs the plugin on one thread. An \<^verbatim>\<open>async\<close> function runs synchronously up
  to its first \<^verbatim>\<open>await\<close>, is suspended there, and is resumed when the awaited promise
  settles; between two suspension points nothing else runs. The model is therefore a
  transition system: the state holds the plugin's fields, the one \<^verbatim>\<open>ReportingCore\<close> object,
  the suspension point of each background task, and a trace of the calls made so far, in
  program order. An event is a call of the host or the settling of an awaited promise.
  A rejection handler attached with \<^verbatim>\<open>.catch\<close> runs in the microtask after the rejection;
  the model runs it in the same transition.
\<close>

subsection \<open>Values of the collaborators\<close>

text \<open>
  Configurations, browser driver factories and queues are opaque to the plugin; they are
  identified by numbers.
\<close>

type_synonym ReportingConfig = nat
type_synonym BrowserDriverFactory = nat
type_synonym Esqueue = nat

text \<open>
  What can be thrown: the \<^verbatim>\<open>TypeError\<close> of a method call on \<^verbatim>\<open>undefined\<close>, the error of
  reading an unresolved configuration, and the failures of the collaborators.
\<close>

datatype error =
    TypeError
  | ConfigNotResolved
  | ConfigResolutionError
  | RegistrationError
  | InitError
  | QueueError

subsection \<open>ReportingCore\<close>

datatype LifecycleState =
    Constructed
  | SetupInProgress
  | SetupComplete
  | StartInProgress
  | Ready
  | Failed

datatype StartContract = ContractOf nat

record ReportingCore =
  oid :: nat
  lifecycle :: LifecycleState
  config :: "ReportingConfig option"

text \<open>
  Modelled from the spec: the class \<^verbatim>\<open>ReportingCore\<close> is imported from \<^verbatim>\<open>./\<close> and its
  source is missing; \<^verbatim>\<open>plugin.ts\<close> only calls its methods. A new core is \<open>Constructed\<close>
  and its Config is unresolved.
\<close>

definition new_ReportingCore :: "nat \<Rightarrow> ReportingCore" where
  "new_ReportingCore i = \<lparr>oid = i, lifecycle = Constructed, config = None\<rparr>"

text \<open>
  Modelled from the spec: \<^verbatim>\<open>ReportingCore.pluginSetup\<close> is missing. It is the call by
  which \<^verbatim>\<open>setup\<close> hands the setup dependencies to the core: the setup phase is in progress.
\<close>

definition pluginSetup :: "ReportingCore \<Rightarrow> ReportingCore" where
  "pluginSetup core = core\<lparr>lifecycle := SetupInProgress\<rparr>"

text \<open>
  Modelled from the spec: \<^verbatim>\<open>ReportingCore.setConfig\<close> is missing. It stores the resolved
  Config.
\<close>

definition setConfig :: "ReportingConfig \<Rightarrow> ReportingCore \<Rightarrow> ReportingCore" where
  "setConfig cfg core = core\<lparr>config := Some cfg\<rparr>"

text \<open>
  Modelled from the spec: \<^verbatim>\<open>ReportingCore.registerFeature\<close> is missing. It invokes the
  FeatureRegistrar, which may fail; the first argument is the registrar's answer. The spec
  sets the lifecycle to \<open>SetupComplete\<close> after the registration, and \<^verbatim>\<open>registerFeature\<close> is
  the last call the setup task makes on the core, so the transition is made by its
  successful return.
\<close>

definition registerFeature :: "error option \<Rightarrow> ReportingCore \<Rightarrow> error + ReportingCore" where
  "registerFeature answer core =
     (case answer of
        Some e \<Rightarrow> Inl e
      | None \<Rightarrow> Inr (core\<lparr>lifecycle := SetupComplete\<rparr>))"

text \<open>
  Modelled from the spec: \<^verbatim>\<open>ReportingCore.pluginSetsUp\<close> is missing. Its promise is the
  SetupComplete signal: it is resolved when the lifecycle has reached \<open>SetupComplete\<close> or
  a later state of the bring-up, and pending otherwise.
\<close>

definition pluginSetsUp :: "ReportingCore \<Rightarrow> bool" where
  "pluginSetsUp core =
     (lifecycle core = SetupComplete \<or> lifecycle core = StartInProgress \<or> lifecycle core = Ready)"

text \<open>
  Modelled from the spec: \<^verbatim>\<open>ReportingCore.getConfig\<close> is missing. Reading Config before
  it is resolved is an error.
\<close>

definition getConfig :: "ReportingCore \<Rightarrow> error + ReportingConfig" where
  "getConfig core = (case config core of None \<Rightarrow> Inl ConfigNotResolved | Some cfg \<Rightarrow> Inr cfg)"

text \<open>
  Modelled from the spec: \<^verbatim>\<open>ReportingCore.pluginStart\<close> is missing. It is the call by
  which the start task hands the start dependencies to the core: the lifecycle is \<open>Ready\<close>.
\<close>

definition pluginStart :: "ReportingCore \<Rightarrow> ReportingCore" where
  "pluginStart core = core\<lparr>lifecycle := Ready\<rparr>"

text \<open>
  Modelled from the spec: \<^verbatim>\<open>ReportingCore.pluginIsStarted\<close> is missing. It is the
  readiness query: true iff the lifecycle is \<open>Ready\<close>.
\<close>

definition pluginIsStarted :: "ReportingCore \<Rightarrow> bool" where
  "pluginIsStarted core = (lifecycle core = Ready)"

text \<open>
  Modelled from the spec: \<^verbatim>\<open>ReportingCore.getStartContract\<close> is missing. The contract is
  a stable reference: every call on one core returns the same object, named here by the
  identity of the core that owns it.
\<close>

definition getStartContract :: "ReportingCore \<Rightarrow> StartContract" where
  "getStartContract core = ContractOf (oid core)"

subsection \<open>The plugin and its background tasks\<close>

datatype level = Debug | Error

text \<open>The calls the plugin makes, as they appear in \<^verbatim>\<open>plugin.ts\<close>.\<close>

datatype action =
    RegisterRouteHandlerContext
  | RegisterUiSettings
  | CreateRouter
  | PluginSetup
  | RegisterReportingUsageCollector
  | RegisterRoutes
  | BuildConfig
  | SetConfig ReportingConfig
  | RegisterFeature "ReportingConfig option"
  | SetFieldFormats
  | PluginSetsUp
  | GetConfig
  | InitializeBrowserDriverFactory ReportingConfig
  | NewReportingStore
  | CreateQueueFactory
  | PluginStart BrowserDriverFactory Esqueue
  | Log level string
  | LogE level error

text \<open>
  The suspension points of the two async arrow functions. \<open>SetupCaught\<close> and \<open>StartCaught\<close>
  say that the task's promise was rejected and its \<^verbatim>\<open>.catch\<close> handler has run.
\<close>

datatype setup_task =
    SetupNotScheduled
  | SetupAwaitsBuildConfig
  | SetupDone
  | SetupCaught error

datatype start_task =
    StartNotScheduled
  | StartAwaitsPluginSetsUp
  | StartAwaitsBrowser ReportingConfig
  | StartAwaitsQueue BrowserDriverFactory
  | StartDone
  | StartCaught error

text \<open>
  \<open>reportingCore\<close> is the field \<^verbatim>\<open>this.reportingCore\<close>; it is undefined (\<open>None\<close>) until
  \<^verbatim>\<open>setup\<close> assigns it. \<open>setup_result\<close> and \<open>start_result\<close> record what the two lifecycle
  methods gave their caller: a returned contract, or a thrown error.
\<close>

record ReportingPlugin =
  reportingCore :: "ReportingCore option"
  next_oid :: nat
  setup_task :: setup_task
  start_task :: start_task
  setup_result :: "(error + StartContract) option"
  start_result :: "(error + StartContract) option"
  trace :: "action list"

definition initial_plugin :: ReportingPlugin where
  "initial_plugin =
     \<lparr>reportingCore = None, next_oid = 0,
      setup_task = SetupNotScheduled, start_task = StartNotScheduled,
      setup_result = None, start_result = None, trace = []\<rparr>"

definition did :: "action list \<Rightarrow> ReportingPlugin \<Rightarrow> ReportingPlugin" where
  "did as s = s\<lparr>trace := trace s @ as\<rparr>"

text \<open>
  \<^verbatim>\<open>ReportingPlugin.setup\<close>, lines 34 to 83. The async arrow function of line 70 runs up
  to \<^verbatim>\<open>await buildConfig(...)\<close> and is suspended; the method then stores the core and
  returns its contract.
\<close>

definition ReportingPlugin_setup ::
  "ReportingPlugin \<Rightarrow> (error + StartContract) \<times> ReportingPlugin" where
  "ReportingPlugin_setup s =
     (let core0 = new_ReportingCore (next_oid s);
          s1 = did [RegisterRouteHandlerContext, RegisterUiSettings, CreateRouter]
                 (s\<lparr>next_oid := Suc (next_oid s)\<rparr>);
          core1 = pluginSetup core0;
          s2 = did [PluginSetup, RegisterReportingUsageCollector, RegisterRoutes] s1;
          s3 = (did [BuildConfig] s2)\<lparr>setup_task := SetupAwaitsBuildConfig\<rparr>;
          s4 = s3\<lparr>reportingCore := Some core1\<rparr>
      in (Inr (getStartContract core1), s4))"

text \<open>
  The rest of the setup task, lines 71 to 75, resumed with the outcome of \<^verbatim>\<open>buildConfig\<close>.
  The result is the error thrown, if any, and the state reached.
\<close>

definition setup_task_resume ::
  "error + ReportingConfig \<Rightarrow> error option \<Rightarrow> ReportingPlugin \<Rightarrow> error option \<times> ReportingPlugin" where
  "setup_task_resume awaited answer s =
     (case awaited of
        Inl e \<Rightarrow> (Some e, s)
      | Inr cfg \<Rightarrow>
          (case reportingCore s of
             None \<Rightarrow> (Some TypeError, s)
           | Some core \<Rightarrow>
               (let core1 = setConfig cfg core;
                    s1 = did [SetConfig cfg, RegisterFeature (config core1)]
                           (s\<lparr>reportingCore := Some core1\<rparr>)
                in case registerFeature answer core1 of
                     Inl e \<Rightarrow> (Some e, s1)
                   | Inr core2 \<Rightarrow>
                       (None, did [Log Debug ''Setup complete'']
                                (s1\<lparr>reportingCore := Some core2\<rparr>)))))"

text \<open>The rejection handler of the setup task, lines 76 to 79.\<close>

definition setup_task_catch :: "error \<Rightarrow> ReportingPlugin \<Rightarrow> ReportingPlugin" where
  "setup_task_catch e s =
     did [Log Error ''Error in Reporting setup, reporting may not function properly'',
          LogE Error e] s"

text \<open>The rejection handler of the start task, lines 116 to 119.\<close>

definition start_task_catch :: "error \<Rightarrow> ReportingPlugin \<Rightarrow> ReportingPlugin" where
  "start_task_catch e s =
     did [Log Error ''Error in Reporting start, reporting may not function properly'',
          LogE Error e] s"

text \<open>
  \<^verbatim>\<open>ReportingPlugin.start\<close>, lines 85 to 122. The non-null assertion of line 88 does
  nothing at run time. With the field undefined, the call \<^verbatim>\<open>reportingCore.pluginSetsUp()\<close>
  throws inside the async function, whose promise is rejected and handled, and the call
  \<^verbatim>\<open>reportingCore.getStartContract()\<close> of line 121 throws to the caller.
\<close>

definition ReportingPlugin_start ::
  "ReportingPlugin \<Rightarrow> (error + StartContract) \<times> ReportingPlugin" where
  "ReportingPlugin_start s =
     (let s1 = did [SetFieldFormats] s
      in case reportingCore s1 of
           None \<Rightarrow>
             (Inl TypeError, (start_task_catch TypeError s1)\<lparr>start_task := StartCaught TypeError\<rparr>)
         | Some core \<Rightarrow>
             (Inr (getStartContract core),
              (did [PluginSetsUp] s1)\<lparr>start_task := StartAwaitsPluginSetsUp\<rparr>))"

text \<open>
  The start task from line 93 to the \<^verbatim>\<open>await\<close> of line 95, resumed when the promise of
  \<^verbatim>\<open>pluginSetsUp\<close> is resolved.
\<close>

definition start_task_configure :: "ReportingPlugin \<Rightarrow> error option \<times> ReportingPlugin" where
  "start_task_configure s =
     (case reportingCore s of
        None \<Rightarrow> (Some TypeError, s)
      | Some core \<Rightarrow>
          (let s1 = did [GetConfig] s
           in case getConfig core of
                Inl e \<Rightarrow> (Some e, s1)
              | Inr cfg \<Rightarrow>
                  (None, (did [InitializeBrowserDriverFactory cfg] s1)
                           \<lparr>start_task := StartAwaitsBrowser cfg\<rparr>)))"

text \<open>
  Lines 95 to 102, resumed with the outcome of \<^verbatim>\<open>initializeBrowserDriverFactory\<close>: the
  store is constructed and \<^verbatim>\<open>createQueueFactory\<close> is called, which starts polling.
\<close>

definition start_task_queue ::
  "error + BrowserDriverFactory \<Rightarrow> ReportingPlugin \<Rightarrow> error option \<times> ReportingPlugin" where
  "start_task_queue awaited s =
     (case awaited of
        Inl e \<Rightarrow> (Some e, s)
      | Inr browserDriverFactory \<Rightarrow>
          (None, (did [NewReportingStore, CreateQueueFactory] s)
                   \<lparr>start_task := StartAwaitsQueue browserDriverFactory\<rparr>))"

text \<open>Lines 97 to 115, resumed with the outcome of \<^verbatim>\<open>createQueueFactory\<close>.\<close>

definition start_task_finish ::
  "BrowserDriverFactory \<Rightarrow> error + Esqueue \<Rightarrow> ReportingPlugin \<Rightarrow> error option \<times> ReportingPlugin" where
  "start_task_finish browserDriverFactory awaited s =
     (case awaited of
        Inl e \<Rightarrow> (Some e, s)
      | Inr esqueue \<Rightarrow>
          (case reportingCore s of
             None \<Rightarrow> (Some TypeError, s)
           | Some core \<Rightarrow>
               (None, did [PluginStart browserDriverFactory esqueue, Log Debug ''Start complete'']
                        (s\<lparr>reportingCore := Some (pluginStart core)\<rparr>))))"

text \<open>
  The callback given to \<^verbatim>\<open>registerRouteHandlerContext\<close>, lines 39 to 46. It closes over
  the core that \<^verbatim>\<open>setup\<close> has created, which is its first argument here. \<open>None\<close> is
  \<^verbatim>\<open>null\<close>.
\<close>

definition routeHandlerContext ::
  "ReportingCore \<Rightarrow> ReportingPlugin \<Rightarrow> StartContract option \<times> ReportingPlugin" where
  "routeHandlerContext core s =
     (if pluginIsStarted core then (Some (getStartContract core), s)
      else (None, did [Log Error ''Reporting features are not yet ready''] s))"

subsection \<open>Executions\<close>

text \<open>
  The host calls each lifecycle method at most once on a plugin instance, in either
  order, and calls the route handler context once it is registered. A promise settles
  once, so a settling event is possible only at the suspension point that awaits it; the
  promise of \<^verbatim>\<open>pluginSetsUp\<close> settles only when the core says so. The second argument of
  \<open>BuildConfigSettled\<close> is the answer the FeatureRegistrar will give. An event that is not
  possible in a state has no successor.
\<close>

datatype event =
    HostSetup
  | HostStart
  | Request
  | BuildConfigSettled "error + ReportingConfig" "error option"
  | PluginSetsUpResolved
  | BrowserSettled "error + BrowserDriverFactory"
  | QueueSettled "error + Esqueue"

definition settle_setup :: "error option \<times> ReportingPlugin \<Rightarrow> ReportingPlugin" where
  "settle_setup r =
     (case r of
        (None, s) \<Rightarrow> s\<lparr>setup_task := SetupDone\<rparr>
      | (Some e, s) \<Rightarrow> (setup_task_catch e s)\<lparr>setup_task := SetupCaught e\<rparr>)"

definition settle_start :: "bool \<Rightarrow> error option \<times> ReportingPlugin \<Rightarrow> ReportingPlugin" where
  "settle_start finished r =
     (case r of
        (None, s) \<Rightarrow> (if finished then s\<lparr>start_task := StartDone\<rparr> else s)
      | (Some e, s) \<Rightarrow> (start_task_catch e s)\<lparr>start_task := StartCaught e\<rparr>)"

fun step :: "ReportingPlugin \<Rightarrow> event \<Rightarrow> ReportingPlugin option" where
  "step s HostSetup =
     (if setup_task s = SetupNotScheduled
      then (case ReportingPlugin_setup s of (r, s') \<Rightarrow> Some (s'\<lparr>setup_result := Some r\<rparr>))
      else None)"
| "step s HostStart =
     (if start_task s = StartNotScheduled
      then (case ReportingPlugin_start s of (r, s') \<Rightarrow> Some (s'\<lparr>start_result := Some r\<rparr>))
      else None)"
| "step s Request =
     (case reportingCore s of
        None \<Rightarrow> None
      | Some core \<Rightarrow> Some (snd (routeHandlerContext core s)))"
| "step s (BuildConfigSettled awaited answer) =
     (if setup_task s = SetupAwaitsBuildConfig
      then Some (settle_setup (setup_task_resume awaited answer s))
      else None)"
| "step s PluginSetsUpResolved =
     (case reportingCore s of
        None \<Rightarrow> None
      | Some core \<Rightarrow>
          (if start_task s = StartAwaitsPluginSetsUp \<and> pluginSetsUp core
           then Some (settle_start False (start_task_configure s))
           else None))"
| "step s (BrowserSettled awaited) =
     (case start_task s of
        StartAwaitsBrowser cfg \<Rightarrow> Some (settle_start False (start_task_queue awaited s))
      | _ \<Rightarrow> None)"
| "step s (QueueSettled awaited) =
     (case start_task s of
        StartAwaitsQueue browserDriverFactory \<Rightarrow>
          Some (settle_start True (start_task_finish browserDriverFactory awaited s))
      | _ \<Rightarrow> None)"

fun run :: "event list \<Rightarrow> ReportingPlugin \<Rightarrow> ReportingPlugin option" where
  "run [] s = Some s"
| "run (ev # evs) s = (case step s ev of None \<Rightarrow> None | Some s' \<Rightarrow> run evs s')"

subsection \<open>Projections of the trace\<close>

text \<open>
  The steps of the setup task, and the steps of the start task, as they appear in the
  trace. The only messages logged at debug level are the two completion messages.
\<close>

fun is_setup_step :: "action \<Rightarrow> bool" where
  "is_setup_step BuildConfig = True"
| "is_setup_step (SetConfig cfg) = True"
| "is_setup_step (RegisterFeature c) = True"
| "is_setup_step (Log lv m) = (lv = Debug \<and> m = ''Setup complete'')"
| "is_setup_step a = False"

fun is_start_step :: "action \<Rightarrow> bool" where
  "is_start_step PluginSetsUp = True"
| "is_start_step GetConfig = True"
| "is_start_step (InitializeBrowserDriverFactory cfg) = True"
| "is_start_step NewReportingStore = True"
| "is_start_step CreateQueueFactory = True"
| "is_start_step (PluginStart b q) = True"
| "is_start_step (Log lv m) = (lv = Debug \<and> m = ''Start complete'')"
| "is_start_step a = False"

definition setup_steps :: "ReportingPlugin \<Rightarrow> action list" where
  "setup_steps s = filter is_setup_step (trace s)"

definition start_steps :: "ReportingPlugin \<Rightarrow> action list" where
  "start_steps s = filter is_start_step (trace s)"

text \<open>
  The bring-up steps are the steps of both tasks without the call of \<^verbatim>\<open>pluginSetsUp\<close>,
  which \<^verbatim>\<open>start\<close> makes synchronously, before or after the setup task has run.
\<close>

definition is_bringup_step :: "action \<Rightarrow> bool" where
  "is_bringup_step a = (is_setup_step a \<or> (is_start_step a \<and> a \<noteq> PluginSetsUp))"

definition bringup_steps :: "ReportingPlugin \<Rightarrow> action list" where
  "bringup_steps s = filter is_bringup_step (trace s)"

definition setup_first :: "ReportingPlugin \<Rightarrow> bool" where
  "setup_first s =
     (bringup_steps s = setup_steps s @ filter (\<lambda>a. a \<noteq> PluginSetsUp) (start_steps s))"

definition bringup :: "ReportingConfig \<Rightarrow> BrowserDriverFactory \<Rightarrow> Esqueue \<Rightarrow> action list" where
  "bringup cfg b q =
     [BuildConfig, SetConfig cfg, RegisterFeature (Some cfg), Log Debug ''Setup complete'',
      GetConfig, InitializeBrowserDriverFactory cfg, NewReportingStore, CreateQueueFactory,
      PluginStart b q, Log Debug ''Start complete'']"

subsection \<open>The shape of reachable states\<close>

text \<open>
  For each suspension point of the two tasks, what the core holds and which steps the
  trace shows.
\<close>

fun registered :: "ReportingConfig option \<Rightarrow> action list" where
  "registered None = []"
| "registered (Some cfg) = [SetConfig cfg, RegisterFeature (Some cfg)]"

fun configured :: "ReportingConfig option \<Rightarrow> action list" where
  "configured None = []"
| "configured (Some cfg) = [PluginSetsUp, GetConfig, InitializeBrowserDriverFactory cfg]"

fun setup_shape :: "setup_task \<Rightarrow> ReportingCore \<Rightarrow> action list \<Rightarrow> bool" where
  "setup_shape SetupNotScheduled c S = False"
| "setup_shape SetupAwaitsBuildConfig c S =
     (lifecycle c = SetupInProgress \<and> config c = None \<and> S = [BuildConfig])"
| "setup_shape (SetupCaught e) c S =
     (lifecycle c = SetupInProgress \<and> S = BuildConfig # registered (config c))"
| "setup_shape SetupDone c S =
     ((lifecycle c = SetupComplete \<or> lifecycle c = Ready) \<and> config c \<noteq> None \<and>
      S = BuildConfig # registered (config c) @ [Log Debug ''Setup complete''])"

fun start_shape :: "start_task \<Rightarrow> setup_task \<Rightarrow> ReportingCore \<Rightarrow> action list \<Rightarrow> bool" where
  "start_shape StartNotScheduled st c T = (lifecycle c \<noteq> Ready \<and> T = [])"
| "start_shape StartAwaitsPluginSetsUp st c T = (lifecycle c \<noteq> Ready \<and> T = [PluginSetsUp])"
| "start_shape (StartAwaitsBrowser cfg) st c T =
     (st = SetupDone \<and> lifecycle c = SetupComplete \<and> config c = Some cfg \<and>
      T = configured (config c))"
| "start_shape (StartAwaitsQueue b) st c T =
     (st = SetupDone \<and> lifecycle c = SetupComplete \<and> config c \<noteq> None \<and>
      T = configured (config c) @ [NewReportingStore, CreateQueueFactory])"
| "start_shape StartDone st c T =
     (st = SetupDone \<and> lifecycle c = Ready \<and> config c \<noteq> None \<and>
      (\<exists>b q. T = configured (config c) @
                   [NewReportingStore, CreateQueueFactory, PluginStart b q,
                    Log Debug ''Start complete'']))"
| "start_shape (StartCaught e) st c T =
     (lifecycle c \<noteq> Ready \<and>
      (T = [] \<or>
       (st = SetupDone \<and> config c \<noteq> None \<and>
        (T = configured (config c) \<or>
         T = configured (config c) @ [NewReportingStore, CreateQueueFactory]))))"

definition results_ok :: "ReportingPlugin \<Rightarrow> bool" where
  "results_ok s =
     ((reportingCore s = None \<longrightarrow> setup_result s = None) \<and>
      (\<forall>c. reportingCore s = Some c \<longrightarrow> setup_result s = Some (Inr (getStartContract c))) \<and>
      (start_result s = None \<longrightarrow> start_task s = StartNotScheduled) \<and>
      (\<forall>e. start_result s = Some (Inl e) \<longrightarrow>
         e = TypeError \<and> start_task s = StartCaught TypeError \<and> start_steps s = []) \<and>
      (\<forall>k. start_result s = Some (Inr k) \<longrightarrow>
         start_task s \<noteq> StartNotScheduled \<and>
         (\<exists>c. reportingCore s = Some c \<and> k = getStartContract c)))"

definition shapes_ok :: "ReportingPlugin \<Rightarrow> bool" where
  "shapes_ok s =
     ((reportingCore s = None \<longrightarrow>
         setup_task s = SetupNotScheduled \<and> setup_steps s = [] \<and> start_steps s = [] \<and>
         (start_task s = StartNotScheduled \<or> start_task s = StartCaught TypeError)) \<and>
      (\<forall>c. reportingCore s = Some c \<longrightarrow>
         setup_shape (setup_task s) c (setup_steps s) \<and>
         start_shape (start_task s) (setup_task s) c (start_steps s)))"

subsection \<open>Observations used in the statements\<close>

text \<open>
  The steps that resolve Config or consume it: the setup task storing Config and
  finishing, and the start task reading Config and initialising the browser driver
  factory, the store and the queue from it.
\<close>

fun is_config_step :: "action \<Rightarrow> bool" where
  "is_config_step (SetConfig cfg) = True"
| "is_config_step (Log lv m) = (lv = Debug \<and> m = ''Setup complete'')"
| "is_config_step GetConfig = True"
| "is_config_step (InitializeBrowserDriverFactory cfg) = True"
| "is_config_step NewReportingStore = True"
| "is_config_step CreateQueueFactory = True"
| "is_config_step a = False"

definition config_steps :: "ReportingPlugin \<Rightarrow> action list" where
  "config_steps s = filter is_config_step (trace s)"

fun is_await_step :: "action \<Rightarrow> bool" where
  "is_await_step PluginSetsUp = True"
| "is_await_step GetConfig = True"
| "is_await_step a = False"

definition await_steps :: "ReportingPlugin \<Rightarrow> action list" where
  "await_steps s = filter is_await_step (trace s)"

text \<open>The three initialisation steps of the start task.\<close>

fun is_init_step :: "action \<Rightarrow> bool" where
  "is_init_step (InitializeBrowserDriverFactory cfg) = True"
| "is_init_step NewReportingStore = True"
| "is_init_step CreateQueueFactory = True"
| "is_init_step a = False"

definition init_steps :: "ReportingPlugin \<Rightarrow> action list" where
  "init_steps s = filter is_init_step (trace s)"



definition lifecycle_of :: "ReportingPlugin \<Rightarrow> LifecycleState option" where
  "lifecycle_of s = map_option lifecycle (reportingCore s)"


text \<open>What an execution from the constructed plugin leaves behind.\<close>

definition trace_after :: "event list \<Rightarrow> action list option" where
  "trace_after evs = map_option trace (run evs initial_plugin)"

definition init_steps_after :: "event list \<Rightarrow> action list option" where
  "init_steps_after evs = map_option init_steps (run evs initial_plugin)"

definition lifecycle_after :: "event list \<Rightarrow> LifecycleState option" where
  "lifecycle_after evs = Option.bind (run evs initial_plugin) lifecycle_of"

definition core_after :: "event list \<Rightarrow> ReportingCore option" where
  "core_after evs = Option.bind (run evs initial_plugin) reportingCore"

section \<open>The job store and the claim of a job\<close>











section \<open>Reachable states of the plugin\<close>

lemmas steps_defs = setup_steps_def start_steps_def

lemmas first_defs =
  setup_first_def bringup_steps_def is_bringup_step_def setup_steps_def start_steps_def

subsection \<open>The shapes are kept by every transition\<close>

lemma shapes_HostSetup: "shapes_ok s \<Longrightarrow> step s HostSetup = Some s' \<Longrightarrow> shapes_ok s'"
  apply (clarsimp simp: ReportingPlugin_setup_def Let_def split: if_splits)
  apply (cases "start_task s"; cases "reportingCore s")
  apply (auto simp: shapes_ok_def steps_defs did_def new_ReportingCore_def pluginSetup_def)
  done
lemma shapes_HostStart: "shapes_ok s \<Longrightarrow> step s HostStart = Some s' \<Longrightarrow> shapes_ok s'"
  apply (cases "reportingCore s"; clarsimp simp: ReportingPlugin_start_def Let_def start_task_catch_def did_def split: if_splits)
  apply (auto simp: shapes_ok_def steps_defs)
  done
lemma shapes_Request: "shapes_ok s \<Longrightarrow> step s Request = Some s' \<Longrightarrow> shapes_ok s'"
  apply (clarsimp simp: routeHandlerContext_def split: option.splits if_splits)
  apply (auto simp add: shapes_ok_def steps_defs did_def)
  done

lemma shapes_BuildConfigSettled: "shapes_ok s \<Longrightarrow> step s (BuildConfigSettled a ans) = Some s' \<Longrightarrow> shapes_ok s'"
  apply (cases a; cases ans; cases "reportingCore s"; cases "start_task s";
    clarsimp simp: settle_setup_def setup_task_resume_def registerFeature_def setConfig_def setup_task_catch_def Let_def did_def split: if_splits)
  apply (simp_all add: shapes_ok_def steps_defs)
  done

lemma shapes_PluginSetsUpResolved: "shapes_ok s \<Longrightarrow> step s PluginSetsUpResolved = Some s' \<Longrightarrow> shapes_ok s'"
  apply (cases "reportingCore s"; cases "setup_task s"; clarsimp simp: settle_start_def start_task_configure_def getConfig_def pluginSetsUp_def start_task_catch_def did_def split: if_splits option.splits)
  apply (auto simp: shapes_ok_def steps_defs)
  done

lemma shapes_BrowserSettled: "shapes_ok s \<Longrightarrow> step s (BrowserSettled a) = Some s' \<Longrightarrow> shapes_ok s'"
  apply (cases "start_task s"; cases a; cases "reportingCore s"; clarsimp simp: settle_start_def start_task_queue_def start_task_catch_def did_def)
  apply (auto simp: shapes_ok_def steps_defs)
  done

lemma shapes_QueueSettled: "shapes_ok s \<Longrightarrow> step s (QueueSettled a) = Some s' \<Longrightarrow> shapes_ok s'"
  apply (cases "start_task s"; cases a; cases "reportingCore s"; clarsimp simp: settle_start_def start_task_finish_def start_task_catch_def pluginStart_def did_def)
  apply (auto simp: shapes_ok_def steps_defs)
  done

lemma shapes_step: "shapes_ok s \<Longrightarrow> step s ev = Some s' \<Longrightarrow> shapes_ok s'"
  by (cases ev) (blast intro: shapes_HostSetup shapes_HostStart shapes_Request shapes_BuildConfigSettled shapes_PluginSetsUpResolved shapes_BrowserSettled shapes_QueueSettled)+

subsection \<open>The recorded results are kept by every transition\<close>


lemma results_HostSetup: "shapes_ok s \<Longrightarrow> results_ok s \<Longrightarrow> step s HostSetup = Some s' \<Longrightarrow> results_ok s'"
  apply (clarsimp simp: ReportingPlugin_setup_def Let_def did_def split: if_splits)
  apply (cases "reportingCore s"; cases "start_result s")
  apply (auto simp: shapes_ok_def results_ok_def steps_defs)
  done
lemma results_HostStart: "shapes_ok s \<Longrightarrow> results_ok s \<Longrightarrow> step s HostStart = Some s' \<Longrightarrow> results_ok s'"
  apply (cases "reportingCore s"; clarsimp simp: ReportingPlugin_start_def Let_def start_task_catch_def did_def split: if_splits)
  apply (auto simp: shapes_ok_def results_ok_def steps_defs)
  done
lemma results_Request: "results_ok s \<Longrightarrow> step s Request = Some s' \<Longrightarrow> results_ok s'"
  apply (clarsimp simp: routeHandlerContext_def split: option.splits if_splits)
  apply (auto simp add: results_ok_def steps_defs did_def)
  done

lemma results_BuildConfigSettled: "results_ok s \<Longrightarrow> step s (BuildConfigSettled a ans) = Some s' \<Longrightarrow> results_ok s'"
  apply (cases a; cases ans; cases "reportingCore s"; 
    clarsimp simp: settle_setup_def setup_task_resume_def registerFeature_def setConfig_def setup_task_catch_def Let_def did_def split: if_splits)
  apply (auto simp add: results_ok_def steps_defs getStartContract_def)
  done

lemma results_PluginSetsUpResolved: "results_ok s \<Longrightarrow> step s PluginSetsUpResolved = Some s' \<Longrightarrow> results_ok s'"
  apply (cases "reportingCore s"; clarsimp simp: settle_start_def start_task_configure_def getConfig_def pluginSetsUp_def start_task_catch_def did_def split: if_splits option.splits)
  apply (auto simp: results_ok_def steps_defs)
  done

lemma results_BrowserSettled: "results_ok s \<Longrightarrow> step s (BrowserSettled a) = Some s' \<Longrightarrow> results_ok s'"
  apply (cases "start_task s"; cases a; cases "reportingCore s"; clarsimp simp: settle_start_def start_task_queue_def start_task_catch_def did_def)
  apply (auto simp: results_ok_def steps_defs)
  done

lemma results_QueueSettled: "results_ok s \<Longrightarrow> step s (QueueSettled a) = Some s' \<Longrightarrow> results_ok s'"
  apply (cases "start_task s"; cases a; cases "reportingCore s"; clarsimp simp: settle_start_def start_task_finish_def start_task_catch_def pluginStart_def did_def)
  apply (auto simp: results_ok_def steps_defs getStartContract_def)
  done

lemma results_step: "shapes_ok s \<Longrightarrow> results_ok s \<Longrightarrow> step s ev = Some s' \<Longrightarrow> results_ok s'"
  by (cases ev) (blast intro: results_HostSetup results_HostStart results_Request results_BuildConfigSettled results_PluginSetsUpResolved results_BrowserSettled results_QueueSettled)+

lemma run_snoc: "run (evs @ [ev]) s = (case run evs s of None \<Rightarrow> None | Some s' \<Rightarrow> step s' ev)"
  by (induction evs arbitrary: s) (auto split: option.splits)

lemma run_append: "run (evs @ evs') s = (case run evs s of None \<Rightarrow> None | Some s' \<Rightarrow> run evs' s')"
  by (induction evs arbitrary: s) (auto split: option.splits)

lemma run_invariant:
  assumes "run evs s = Some s'" and "P s" and "\<And>t ev t'. P t \<Longrightarrow> step t ev = Some t' \<Longrightarrow> P t'"
  shows "P s'"
  using assms(1,2)
proof (induction evs arbitrary: s)
  case Nil
  then show ?case by simp
next
  case (Cons ev evs)
  then show ?case by (auto split: option.splits intro: assms(3))
qed


lemma initial_ok: "shapes_ok initial_plugin \<and> results_ok initial_plugin"
  by (simp add: initial_plugin_def shapes_ok_def results_ok_def steps_defs)

lemma reachable_ok:
  assumes "run evs initial_plugin = Some s"
  shows "shapes_ok s \<and> results_ok s"
proof (rule run_invariant[OF assms, where P = "\<lambda>s. shapes_ok s \<and> results_ok s"])
  show "shapes_ok initial_plugin \<and> results_ok initial_plugin"
    by (rule initial_ok)
next
  fix t ev t'
  assume "shapes_ok t \<and> results_ok t" and "step t ev = Some t'"
  then show "shapes_ok t' \<and> results_ok t'"
    using shapes_step results_step by blast
qed

subsection \<open>The setup steps come before the start steps\<close>


lemma first_HostSetup: "shapes_ok s \<Longrightarrow> setup_first s \<Longrightarrow> step s HostSetup = Some s' \<Longrightarrow> setup_first s'"
  apply (clarsimp simp: ReportingPlugin_setup_def Let_def did_def split: if_splits)
  apply (cases "reportingCore s")
  apply (auto simp: shapes_ok_def first_defs)
  done
lemma first_HostStart: "setup_first s \<Longrightarrow> step s HostStart = Some s' \<Longrightarrow> setup_first s'"
  apply (cases "reportingCore s"; clarsimp simp: ReportingPlugin_start_def Let_def start_task_catch_def did_def split: if_splits)
  apply (auto simp: first_defs)
  done
lemma first_Request: "setup_first s \<Longrightarrow> step s Request = Some s' \<Longrightarrow> setup_first s'"
  apply (clarsimp simp: routeHandlerContext_def split: option.splits if_splits)
  apply (auto simp add: first_defs did_def)
  done

lemma first_BuildConfigSettled: "shapes_ok s \<Longrightarrow> setup_first s \<Longrightarrow> step s (BuildConfigSettled a ans) = Some s' \<Longrightarrow> setup_first s'"
  apply (cases a; cases ans; cases "reportingCore s"; cases "start_task s";
    clarsimp simp: settle_setup_def setup_task_resume_def registerFeature_def setConfig_def setup_task_catch_def Let_def did_def split: if_splits)
  apply (simp_all add: shapes_ok_def first_defs)
  done

lemma first_PluginSetsUpResolved: "setup_first s \<Longrightarrow> step s PluginSetsUpResolved = Some s' \<Longrightarrow> setup_first s'"
  apply (cases "reportingCore s"; clarsimp simp: settle_start_def start_task_configure_def getConfig_def pluginSetsUp_def start_task_catch_def did_def split: if_splits option.splits)
  apply (auto simp: first_defs)
  done

lemma first_BrowserSettled: "setup_first s \<Longrightarrow> step s (BrowserSettled a) = Some s' \<Longrightarrow> setup_first s'"
  apply (cases "start_task s"; cases a; clarsimp simp: settle_start_def start_task_queue_def start_task_catch_def did_def)
  apply (auto simp: first_defs)
  done

lemma first_QueueSettled: "setup_first s \<Longrightarrow> step s (QueueSettled a) = Some s' \<Longrightarrow> setup_first s'"
  apply (cases "start_task s"; cases a; cases "reportingCore s"; clarsimp simp: settle_start_def start_task_finish_def start_task_catch_def pluginStart_def did_def)
  apply (auto simp: first_defs)
  done

lemma first_step: "shapes_ok s \<Longrightarrow> setup_first s \<Longrightarrow> step s ev = Some s' \<Longrightarrow> setup_first s'"
  by (cases ev) (blast intro: first_HostSetup first_HostStart first_Request first_BuildConfigSettled first_PluginSetsUpResolved first_BrowserSettled first_QueueSettled)+

lemma reachable_first:
  assumes "run evs initial_plugin = Some s"
  shows "shapes_ok s \<and> setup_first s"
proof (rule run_invariant[OF assms, where P = "\<lambda>s. shapes_ok s \<and> setup_first s"])
  show "shapes_ok initial_plugin \<and> setup_first initial_plugin"
    using initial_ok by (simp add: initial_plugin_def first_defs)
next
  fix t ev t'
  assume "shapes_ok t \<and> setup_first t" and "step t ev = Some t'"
  then show "shapes_ok t' \<and> setup_first t'"
    using shapes_step first_step by blast
qed


lemma start_prefix:
  "shapes_ok s \<Longrightarrow>
   \<exists>cfg b q. prefix (start_steps s)
     [PluginSetsUp, GetConfig, InitializeBrowserDriverFactory cfg, NewReportingStore,
      CreateQueueFactory, PluginStart b q, Log Debug ''Start complete''] \<and>
     (start_steps s = [] \<or> start_steps s = [PluginSetsUp] \<or>
      (setup_task s = SetupDone \<and> (\<exists>c. reportingCore s = Some c \<and> config c = Some cfg)))"
  apply (cases "reportingCore s")
   apply (simp add: shapes_ok_def)
  subgoal for c
    apply (cases "start_task s"; cases "config c")
    apply (auto simp: shapes_ok_def)
    done
  done

lemmas exec_defs = initial_plugin_def did_def ReportingPlugin_setup_def ReportingPlugin_start_def
  setup_task_resume_def setup_task_catch_def start_task_catch_def start_task_configure_def
  start_task_queue_def start_task_finish_def routeHandlerContext_def settle_setup_def settle_start_def
  new_ReportingCore_def pluginSetup_def setConfig_def registerFeature_def pluginSetsUp_def getConfig_def
  pluginStart_def pluginIsStarted_def getStartContract_def Let_def

lemma bringup_prefix:
  "shapes_ok s \<Longrightarrow> setup_first s \<Longrightarrow> \<exists>cfg b q. prefix (bringup_steps s) (bringup cfg b q)"
  apply (cases "reportingCore s")
   apply (simp add: shapes_ok_def setup_first_def)
  subgoal for c
    apply (cases "setup_task s"; cases "start_task s"; cases "config c")
    apply (auto simp: shapes_ok_def setup_first_def bringup_def)
    done
  done

lemma config_steps_bringup: "config_steps s = filter is_config_step (bringup_steps s)"
proof -
  have "\<And>a. (is_bringup_step a \<and> is_config_step a) = is_config_step a"
    subgoal for a by (cases a) (auto simp: is_bringup_step_def)
    done
  then show ?thesis by (simp add: config_steps_def bringup_steps_def)
qed

lemma await_steps_start: "await_steps s = filter is_await_step (start_steps s)"
proof -
  have "\<And>a. (is_start_step a \<and> is_await_step a) = is_await_step a"
    subgoal for a by (cases a) auto
    done
  then show ?thesis by (simp add: await_steps_def start_steps_def)
qed

lemma init_steps_start: "init_steps s = filter is_init_step (start_steps s)"
proof -
  have "\<And>a. (is_start_step a \<and> is_init_step a) = is_init_step a"
    subgoal for a by (cases a) auto
    done
  then show ?thesis by (simp add: init_steps_def start_steps_def)
qed


lemma no_setup_no_core:
  "run evs s = Some s' \<Longrightarrow> HostSetup \<notin> set evs \<Longrightarrow> reportingCore s = None \<Longrightarrow>
   reportingCore s' = None"
proof (induction evs arbitrary: s)
  case Nil
  then show ?case by simp
next
  case (Cons ev evs)
  from Cons.prems obtain t where t: "step s ev = Some t" "run evs t = Some s'"
    by (auto split: option.splits)
  from Cons.prems have "ev \<noteq> HostSetup" by auto
  with t(1) Cons.prems(3) have "reportingCore t = None"
    by (cases ev)
       (auto simp: ReportingPlugin_start_def Let_def did_def start_task_catch_def
          settle_setup_def setup_task_resume_def setup_task_catch_def
          settle_start_def start_task_queue_def start_task_finish_def
          split: if_splits sum.splits start_task.splits)
  with Cons.IH[OF t(2)] Cons.prems(2) show ?case by simp
qed

lemmas step_defs = ReportingPlugin_setup_def ReportingPlugin_start_def
  setup_task_resume_def setup_task_catch_def start_task_catch_def start_task_configure_def
  start_task_queue_def start_task_finish_def routeHandlerContext_def settle_setup_def
  settle_start_def registerFeature_def getConfig_def Let_def did_def

lemma step_keeps:
  "step s ev = Some s' \<Longrightarrow>
   prefix (trace s) (trace s') \<and> (setup_task s = SetupCaught e \<longrightarrow> setup_task s' = SetupCaught e)"
  by (cases ev)
     (auto simp: step_defs split: if_splits option.splits sum.splits start_task.splits)


section \<open>Claims on a shared job store: auxiliary facts\<close>







section \<open>The claims\<close>

text \<open>
  C1. The background task scheduled by \<^verbatim>\<open>start\<close> awaits the promise of \<^verbatim>\<open>pluginSetsUp\<close>
  before it reads Config, and no step of the start task that consumes Config runs before
  the setup task has stored the resolved Config and finished. In every execution, the
  steps that resolve or consume Config appear in the order: Config stored, setup task
  finished, Config read, browser driver factory, store and queue initialised from the
  Config that was stored; the call of \<^verbatim>\<open>pluginSetsUp\<close> comes before the read; and once
  Config has been read the setup task is done and Config is resolved.
\<close>

theorem start_task_awaits_setup:
  assumes "run evs initial_plugin = Some s"
  shows "(\<exists>cfg. prefix (config_steps s)
            [SetConfig cfg, Log Debug ''Setup complete'', GetConfig,
             InitializeBrowserDriverFactory cfg, NewReportingStore, CreateQueueFactory]) \<and>
         prefix (await_steps s) [PluginSetsUp, GetConfig] \<and>
         (GetConfig \<in> set (trace s) \<longrightarrow>
            setup_task s = SetupDone \<and> (\<exists>c. reportingCore s = Some c \<and> config c \<noteq> None))"
proof -
  from assms have ok: "shapes_ok s" and first: "setup_first s"
    using reachable_first by blast+
  from bringup_prefix[OF ok first] obtain cfg b q
    where "prefix (bringup_steps s) (bringup cfg b q)" by blast
  then have "prefix (filter is_config_step (bringup_steps s)) (filter is_config_step (bringup cfg b q))"
    by (rule filter_mono_prefix)
  then have A: "\<exists>cfg. prefix (config_steps s)
            [SetConfig cfg, Log Debug ''Setup complete'', GetConfig,
             InitializeBrowserDriverFactory cfg, NewReportingStore, CreateQueueFactory]"
    by (auto simp: config_steps_bringup bringup_def)
  from start_prefix[OF ok] obtain cfg' b' q' where
    p: "prefix (start_steps s)
     [PluginSetsUp, GetConfig, InitializeBrowserDriverFactory cfg', NewReportingStore,
      CreateQueueFactory, PluginStart b' q', Log Debug ''Start complete'']"
    and d: "start_steps s = [] \<or> start_steps s = [PluginSetsUp] \<or>
      (setup_task s = SetupDone \<and> (\<exists>c. reportingCore s = Some c \<and> config c = Some cfg'))"
    by blast
  from filter_mono_prefix[OF p, of is_await_step]
  have B: "prefix (await_steps s) [PluginSetsUp, GetConfig]"
    by (simp add: await_steps_start)
  have C: "GetConfig \<in> set (trace s) \<longrightarrow>
            setup_task s = SetupDone \<and> (\<exists>c. reportingCore s = Some c \<and> config c \<noteq> None)"
  proof
    assume "GetConfig \<in> set (trace s)"
    then have "GetConfig \<in> set (start_steps s)" by (simp add: start_steps_def)
    with d show "setup_task s = SetupDone \<and> (\<exists>c. reportingCore s = Some c \<and> config c \<noteq> None)"
      by auto
  qed
  from A B C show ?thesis by blast
qed

theorem start_task_awaits_setup_witness:
  "\<exists>s. run [HostSetup, HostStart, BuildConfigSettled (Inr 7) None, PluginSetsUpResolved,
            BrowserSettled (Inr 3)] initial_plugin = Some s \<and>
       config_steps s =
         [SetConfig 7, Log Debug ''Setup complete'', GetConfig,
          InitializeBrowserDriverFactory 7, NewReportingStore, CreateQueueFactory] \<and>
       await_steps s = [PluginSetsUp, GetConfig] \<and>
       GetConfig \<in> set (trace s) \<and> setup_task s = SetupDone"
proof -
  have r: "\<exists>s. run [HostSetup, HostStart, BuildConfigSettled (Inr 7) None, PluginSetsUpResolved,
            BrowserSettled (Inr 3)] initial_plugin = Some s"
    by (simp add: exec_defs)
  then obtain s where s: "run [HostSetup, HostStart, BuildConfigSettled (Inr 7) None, PluginSetsUpResolved,
            BrowserSettled (Inr 3)] initial_plugin = Some s" by blast
  from s have t: "config_steps s = [SetConfig 7, Log Debug ''Setup complete'', GetConfig,
          InitializeBrowserDriverFactory 7, NewReportingStore, CreateQueueFactory] \<and>
       await_steps s = [PluginSetsUp, GetConfig] \<and> GetConfig \<in> set (trace s)"
    by (auto simp: exec_defs config_steps_def await_steps_def)
  with start_task_awaits_setup[OF s] s show ?thesis by blast
qed

text \<open>
  C2. \<^verbatim>\<open>setup\<close> and \<^verbatim>\<open>start\<close> are synchronous. In every reachable state, a call of
  \<^verbatim>\<open>setup\<close> returns a contract to its caller and leaves its background task suspended at
  \<^verbatim>\<open>buildConfig\<close>, with Config unresolved; and a call of \<^verbatim>\<open>start\<close> made after \<^verbatim>\<open>setup\<close>
  returns a contract and leaves its background task suspended at \<^verbatim>\<open>pluginSetsUp\<close>,
  whatever the setup task has done so far, and without touching the core or the setup
  task. No event of a background task is needed for either call to return.
\<close>

theorem lifecycle_methods_return:
  assumes "run evs initial_plugin = Some s"
  shows "(setup_task s = SetupNotScheduled \<longrightarrow>
            (\<exists>s' k c. step s HostSetup = Some s' \<and> setup_result s' = Some (Inr k) \<and>
               setup_task s' = SetupAwaitsBuildConfig \<and>
               reportingCore s' = Some c \<and> config c = None)) \<and>
         (setup_task s \<noteq> SetupNotScheduled \<and> start_task s = StartNotScheduled \<longrightarrow>
            (\<exists>s' k. step s HostStart = Some s' \<and> start_result s' = Some (Inr k) \<and>
               start_task s' = StartAwaitsPluginSetsUp \<and>
               reportingCore s' = reportingCore s \<and> setup_task s' = setup_task s))"
proof -
  from assms have ok: "shapes_ok s"
    using reachable_ok by blast
  have A: "setup_task s = SetupNotScheduled \<longrightarrow>
            (\<exists>s' k c. step s HostSetup = Some s' \<and> setup_result s' = Some (Inr k) \<and>
               setup_task s' = SetupAwaitsBuildConfig \<and>
               reportingCore s' = Some c \<and> config c = None)"
    by (simp add: ReportingPlugin_setup_def Let_def did_def pluginSetup_def new_ReportingCore_def)
  have B: "setup_task s \<noteq> SetupNotScheduled \<and> start_task s = StartNotScheduled \<longrightarrow>
            (\<exists>s' k. step s HostStart = Some s' \<and> start_result s' = Some (Inr k) \<and>
               start_task s' = StartAwaitsPluginSetsUp \<and>
               reportingCore s' = reportingCore s \<and> setup_task s' = setup_task s)"
    using ok
    by (cases "reportingCore s")
       (auto simp: shapes_ok_def ReportingPlugin_start_def Let_def did_def)
  from A B show ?thesis by blast
qed

theorem lifecycle_methods_return_witness:
  "\<exists>s. run [HostSetup, HostStart] initial_plugin = Some s \<and>
       setup_result s = Some (Inr (ContractOf 0)) \<and>
       start_result s = Some (Inr (ContractOf 0)) \<and>
       setup_task s = SetupAwaitsBuildConfig \<and> start_task s = StartAwaitsPluginSetsUp \<and>
       reportingCore s = Some \<lparr>oid = 0, lifecycle = SetupInProgress, config = None\<rparr>"
proof -
  have i: "run [] initial_plugin = Some initial_plugin" by simp
  have n: "setup_task initial_plugin = SetupNotScheduled" by (simp add: initial_plugin_def)
  from lifecycle_methods_return[OF i] n obtain s1 k1 c1 where
    s1: "step initial_plugin HostSetup = Some s1" "setup_result s1 = Some (Inr k1)"
        "setup_task s1 = SetupAwaitsBuildConfig" "reportingCore s1 = Some c1" "config c1 = None"
    by blast
  then have r1: "run [HostSetup] initial_plugin = Some s1" by simp
  have "start_task s1 = StartNotScheduled"
    using s1(1) by (auto simp: exec_defs)
  with lifecycle_methods_return[OF r1] s1(3) obtain s2 k2 where
    s2: "step s1 HostStart = Some s2" "start_result s2 = Some (Inr k2)"
        "start_task s2 = StartAwaitsPluginSetsUp"
    by auto
  from s1(1) s2(1) have r2: "run [HostSetup, HostStart] initial_plugin = Some s2" by simp
  from r2 have "setup_result s2 = Some (Inr (ContractOf 0)) \<and>
       start_result s2 = Some (Inr (ContractOf 0)) \<and>
       setup_task s2 = SetupAwaitsBuildConfig \<and> start_task s2 = StartAwaitsPluginSetsUp \<and>
       reportingCore s2 = Some \<lparr>oid = 0, lifecycle = SetupInProgress, config = None\<rparr>"
    by (auto simp: exec_defs)
  with r2 show ?thesis by blast
qed

text \<open>
  C4 as stated: in every execution of the start task the initialisation steps run in the
  order JobStore, BrowserDriverFactory, JobQueue. It fails: in the execution below the
  browser driver factory is initialised first (line 95) and the store is constructed after
  it (line 96).
\<close>

theorem init_order_counterexample:
  "init_steps_after [HostSetup, HostStart, BuildConfigSettled (Inr 7) None,
                     PluginSetsUpResolved, BrowserSettled (Inr 3)] =
     Some [InitializeBrowserDriverFactory 7, NewReportingStore, CreateQueueFactory] \<and>
   \<not> prefix [InitializeBrowserDriverFactory 7, NewReportingStore, CreateQueueFactory]
             [NewReportingStore, InitializeBrowserDriverFactory 7, CreateQueueFactory]"
  by (simp add: init_steps_after_def init_steps_def exec_defs)

text \<open>
  C4 as amended: in every execution of the start task the initialisation steps run in the
  order BrowserDriverFactory, JobStore, JobQueue.
\<close>

theorem init_order:
  assumes "run evs initial_plugin = Some s"
  shows "\<exists>cfg. prefix (init_steps s)
           [InitializeBrowserDriverFactory cfg, NewReportingStore, CreateQueueFactory]"
proof -
  from assms have ok: "shapes_ok s"
    using reachable_ok by blast
  from start_prefix[OF ok] obtain cfg b q where
    p: "prefix (start_steps s)
     [PluginSetsUp, GetConfig, InitializeBrowserDriverFactory cfg, NewReportingStore,
      CreateQueueFactory, PluginStart b q, Log Debug ''Start complete'']"
    by blast
  from filter_mono_prefix[OF p, of is_init_step]
  have "prefix (init_steps s)
          [InitializeBrowserDriverFactory cfg, NewReportingStore, CreateQueueFactory]"
    by (simp add: init_steps_start)
  then show ?thesis ..
qed

theorem init_order_witness:
  "\<exists>s. run [HostSetup, HostStart, BuildConfigSettled (Inr 7) None, PluginSetsUpResolved,
            BrowserSettled (Inr 3), QueueSettled (Inr 5)] initial_plugin = Some s \<and>
       init_steps s = [InitializeBrowserDriverFactory 7, NewReportingStore, CreateQueueFactory]"
proof -
  have "\<exists>s. run [HostSetup, HostStart, BuildConfigSettled (Inr 7) None, PluginSetsUpResolved,
            BrowserSettled (Inr 3), QueueSettled (Inr 5)] initial_plugin = Some s"
    by (simp add: exec_defs)
  then obtain s where s: "run [HostSetup, HostStart, BuildConfigSettled (Inr 7) None,
            PluginSetsUpResolved, BrowserSettled (Inr 3), QueueSettled (Inr 5)] initial_plugin = Some s"
    by blast
  from s have "init_steps s =
      [InitializeBrowserDriverFactory 7, NewReportingStore, CreateQueueFactory]"
    by (auto simp: exec_defs init_steps_def)
  with init_order[OF s] s show ?thesis by blast
qed

text \<open>
  C5. When the route handler context is asked for while the core is not started, the
  callback returns \<^verbatim>\<open>null\<close> and does not throw; the state after the request is the state
  before it with one error line added to the log, so the core, the tasks and the recorded
  results are untouched.
\<close>

theorem not_ready_returns_null:
  assumes "reportingCore s = Some core" and "\<not> pluginIsStarted core"
  shows "fst (routeHandlerContext core s) = None \<and>
         step s Request =
           Some (s\<lparr>trace := trace s @ [Log Error ''Reporting features are not yet ready'']\<rparr>)"
  using assms by (simp add: routeHandlerContext_def did_def)

theorem not_ready_returns_null_witness:
  "\<exists>s core. run [HostSetup, HostStart] initial_plugin = Some s \<and>
      reportingCore s = Some core \<and> lifecycle core = SetupInProgress \<and>
      fst (routeHandlerContext core s) = None \<and>
      Option.bind (step s Request) reportingCore = Some core \<and>
      map_option setup_task (step s Request) = Some (setup_task s) \<and>
      map_option start_task (step s Request) = Some (start_task s)"
proof -
  have "\<exists>s. run [HostSetup, HostStart] initial_plugin = Some s"
    by (simp add: exec_defs)
  then obtain s where s: "run [HostSetup, HostStart] initial_plugin = Some s"
    by blast
  from s have c: "reportingCore s = Some \<lparr>oid = 0, lifecycle = SetupInProgress, config = None\<rparr>"
    by (auto simp: exec_defs)
  have l: "\<not> pluginIsStarted \<lparr>oid = 0, lifecycle = SetupInProgress, config = None\<rparr>"
    by (simp add: pluginIsStarted_def)
  from not_ready_returns_null[OF c l] s c show ?thesis by simp
qed





text \<open>
  C10. In an execution in which \<^verbatim>\<open>setup\<close> was never called, \<^verbatim>\<open>start\<close> throws a
  \<^verbatim>\<open>TypeError\<close> to its caller instead of returning a contract.
\<close>

theorem start_without_setup_throws:
  assumes "run evs initial_plugin = Some s" and "HostSetup \<notin> set evs"
  shows "fst (ReportingPlugin_start s) = Inl TypeError"
proof -
  have "reportingCore initial_plugin = None" by (simp add: initial_plugin_def)
  with no_setup_no_core[OF assms] have "reportingCore s = None" by simp
  then show ?thesis
    by (simp add: ReportingPlugin_start_def Let_def did_def)
qed

theorem start_without_setup_throws_witness:
  "fst (ReportingPlugin_start initial_plugin) = Inl TypeError \<and>
   Option.bind (run [HostStart] initial_plugin) start_result = Some (Inl TypeError)"
proof -
  have r: "run [] initial_plugin = Some initial_plugin" by simp
  have "HostSetup \<notin> set []" by simp
  from start_without_setup_throws[OF r this]
  have a: "fst (ReportingPlugin_start initial_plugin) = Inl TypeError" .
  have b: "Option.bind (run [HostStart] initial_plugin) start_result = Some (Inl TypeError)"
    by (simp add: exec_defs)
  from a b show ?thesis by blast
qed

text \<open>
  C7 as stated: if Config resolution fails in the setup task, the lifecycle becomes
  \<open>Failed\<close>, no readiness check succeeds afterwards and polling never starts. The first
  part fails: the rejection handler of lines 76 to 79 only writes to the logger. After the
  failure below the lifecycle is still \<open>SetupInProgress\<close>, and the core is what it is while
  the resolution is still pending.
\<close>

theorem config_failure_counterexample:
  "lifecycle_after [HostSetup, HostStart, BuildConfigSettled (Inl ConfigResolutionError) None] =
     Some SetupInProgress \<and>
   core_after [HostSetup, HostStart, BuildConfigSettled (Inl ConfigResolutionError) None] =
     core_after [HostSetup, HostStart]"
  by (simp add: lifecycle_after_def core_after_def lifecycle_of_def exec_defs)

text \<open>
  C7 as amended: if Config resolution fails in the setup task, the failure is logged and
  the lifecycle stays \<open>SetupInProgress\<close>; in every continuation of the execution the
  readiness check is false, the route handler context is \<^verbatim>\<open>null\<close>, and
  \<^verbatim>\<open>createQueueFactory\<close> is never called, so polling never starts.
\<close>

theorem config_failure_never_ready:
  assumes "run evs initial_plugin = Some s"
    and "step s (BuildConfigSettled (Inl e) answer) = Some s1"
    and "run evs' s1 = Some s2"
  shows "setup_task s2 = SetupCaught e \<and>
         Log Error ''Error in Reporting setup, reporting may not function properly''
           \<in> set (trace s2) \<and>
         LogE Error e \<in> set (trace s2) \<and>
         lifecycle_of s2 = Some SetupInProgress \<and>
         (\<exists>c. reportingCore s2 = Some c \<and> \<not> pluginIsStarted c \<and>
              fst (routeHandlerContext c s2) = None) \<and>
         CreateQueueFactory \<notin> set (trace s2)"
proof -
  let ?m = "Log Error ''Error in Reporting setup, reporting may not function properly''"
  let ?P = "\<lambda>t. setup_task t = SetupCaught e \<and> ?m \<in> set (trace t) \<and> LogE Error e \<in> set (trace t)"
  from assms(2) have "?P s1"
    by (auto simp: settle_setup_def setup_task_resume_def setup_task_catch_def did_def
          split: if_splits)
  have P: "?P s2"
  proof (rule run_invariant[OF assms(3), where P = ?P])
    show "?P s1" by fact
  next
    fix t ev t'
    assume "?P t" and "step t ev = Some t'"
    with step_keeps[of t ev t' e] show "?P t'"
      by (auto dest: set_mono_prefix)
  qed
  from assms have "run (evs @ BuildConfigSettled (Inl e) answer # evs') initial_plugin = Some s2"
    by (simp add: run_append)
  then have ok: "shapes_ok s2"
    using reachable_ok by blast
  from ok P obtain c where c: "reportingCore s2 = Some c" "lifecycle c = SetupInProgress"
    by (cases "reportingCore s2") (auto simp: shapes_ok_def)
  from ok P c have "CreateQueueFactory \<notin> set (start_steps s2)"
    by (cases "start_task s2") (auto simp: shapes_ok_def)
  then have q: "CreateQueueFactory \<notin> set (trace s2)"
    by (simp add: start_steps_def)
  from c have "\<not> pluginIsStarted c \<and> fst (routeHandlerContext c s2) = None"
    by (simp add: pluginIsStarted_def routeHandlerContext_def)
  with P c q show ?thesis
    by (simp add: lifecycle_of_def)
qed

theorem config_failure_never_ready_witness:
  "\<exists>s s1 s2.
      run [HostSetup, HostStart] initial_plugin = Some s \<and>
      step s (BuildConfigSettled (Inl ConfigResolutionError) None) = Some s1 \<and>
      run [Request, Request] s1 = Some s2 \<and>
      setup_task s2 = SetupCaught ConfigResolutionError \<and>
      start_task s2 = StartAwaitsPluginSetsUp \<and>
      step s2 PluginSetsUpResolved = None \<and>
      lifecycle_of s2 = Some SetupInProgress \<and>
      CreateQueueFactory \<notin> set (trace s2)"
proof -
  have "\<exists>s. run [HostSetup, HostStart] initial_plugin = Some s"
    by (simp add: exec_defs)
  then obtain s where s: "run [HostSetup, HostStart] initial_plugin = Some s"
    by blast
  from s have "\<exists>s1. step s (BuildConfigSettled (Inl ConfigResolutionError) None) = Some s1"
    by (auto simp: exec_defs)
  then obtain s1 where s1: "step s (BuildConfigSettled (Inl ConfigResolutionError) None) = Some s1"
    by blast
  from s s1 have "\<exists>s2. run [Request, Request] s1 = Some s2"
    by (auto simp: exec_defs)
  then obtain s2 where s2: "run [Request, Request] s1 = Some s2"
    by blast
  from s s1 s2 have "start_task s2 = StartAwaitsPluginSetsUp \<and> step s2 PluginSetsUpResolved = None"
    by (auto simp: exec_defs)
  with config_failure_never_ready[OF s s1 s2] s s1 s2 show ?thesis by blast
qed






end
